theory Spec2Isabelle
  imports Complex_Main
begin

section \<open>JavaScript values\<close>

text \<open>
  The equality helpers take arguments of type \<^verbatim>\<open>any\<close>.  What they observe of a value is
  its \<^verbatim>\<open>typeof\<close> tag, whether it is an array, identity under \<^verbatim>\<open>===\<close>, its own
  enumerable keys and the values stored under them.  Objects are compared by reference, so
  object values are addresses into a store, and two addresses may hold equal contents.

  Numbers are IEEE doubles.  No arithmetic is done on them; only \<^verbatim>\<open>===\<close> is applied,
  which identifies \<^verbatim>\<open>+0\<close> with \<^verbatim>\<open>-0\<close> and separates \<^verbatim>\<open>NaN\<close> from every number, itself
  included.  A finite double is therefore represented by the rational it denotes.

  An object of the store is described by what the helpers can see of it:
  \<^item> \<open>Object own rest\<close>: \<open>own\<close> lists the own enumerable string-keyed properties in the
    order \<^verbatim>\<open>Object.keys\<close> yields them, each key once; \<open>rest\<close> lists every other property
    a read \<^verbatim>\<open>o[key]\<close> can find, that is the own properties that are not enumerable and
    the properties of the prototype chain, nearest first.
  \<^item> \<open>Array elems rest\<close>: a dense array with its elements; its own properties are the
    indices and \<^verbatim>\<open>length\<close>, and \<open>rest\<close> is what a read finds behind them
    (\<^verbatim>\<open>Array.prototype\<close>, then \<^verbatim>\<open>Object.prototype\<close>).
  \<^item> \<open>Function\<close>: a function is opaque; the helpers only look at its \<^verbatim>\<open>typeof\<close> tag
    and its identity.

  Scope of the model: properties are data properties (a read has no effect and does not
  raise), arrays are dense and carry no own property besides indices and \<^verbatim>\<open>length\<close>.
  Symbols and bigints are left out.
\<close>

type_synonym addr = nat

datatype jsnum = NaN | PosInf | NegInf | Fin rat

datatype jsval = Undefined | Null | Bool bool | Num jsnum | Str string | Ref addr

datatype obj =
    Array "jsval list" "(string \<times> jsval) list"
  | Object "(string \<times> jsval) list" "(string \<times> jsval) list"
  | Function

type_synonym heap = "addr \<Rightarrow> obj"

datatype error = TypeError

text \<open>\<^verbatim>\<open>a === b\<close>\<close>

fun strict_eq :: "jsval \<Rightarrow> jsval \<Rightarrow> bool" where
  "strict_eq (Num x) (Num y) = (x \<noteq> NaN \<and> x = y)"
| "strict_eq a b = (a = b)"

text \<open>\<^verbatim>\<open>typeof v\<close>; note that \<^verbatim>\<open>typeof null\<close> is \<^verbatim>\<open>"object"\<close>.\<close>

fun typeof :: "heap \<Rightarrow> jsval \<Rightarrow> string" where
  "typeof h Undefined = ''undefined''"
| "typeof h Null = ''object''"
| "typeof h (Bool b) = ''boolean''"
| "typeof h (Num n) = ''number''"
| "typeof h (Str s) = ''string''"
| "typeof h (Ref p) = (case h p of Function \<Rightarrow> ''function'' | _ \<Rightarrow> ''object'')"

text \<open>\<^verbatim>\<open>Array.isArray(v)\<close>\<close>

fun isArray :: "heap \<Rightarrow> jsval \<Rightarrow> bool" where
  "isArray h (Ref p) = (case h p of Array xs rest \<Rightarrow> True | _ \<Rightarrow> False)"
| "isArray h v = False"

text \<open>The key of array index \<open>n\<close>: its decimal numeral.\<close>

definition digit_char :: "nat \<Rightarrow> char" where
  "digit_char d = ''0123456789'' ! d"

function index_key :: "nat \<Rightarrow> string" where
  "index_key n =
     (if n < 10 then [digit_char n] else index_key (n div 10) @ [digit_char (n mod 10)])"
  by pat_completeness auto
termination
  by (relation "measure id") auto

declare index_key.simps [simp del]

text \<open>
  \<^verbatim>\<open>Object.keys(v)\<close>.  It converts its argument to an object first, which raises a
  \<^verbatim>\<open>TypeError\<close> on \<^verbatim>\<open>null\<close> and \<^verbatim>\<open>undefined\<close>.
\<close>

fun object_keys :: "heap \<Rightarrow> jsval \<Rightarrow> error + string list" where
  "object_keys h Undefined = Inl TypeError"
| "object_keys h Null = Inl TypeError"
| "object_keys h (Ref p) =
     (case h p of
        Array xs rest \<Rightarrow> Inr (map index_key [0..<length xs])
      | Object own rest \<Rightarrow> Inr (map fst own)
      | Function \<Rightarrow> Inr [])"
| "object_keys h (Str s) = Inr (map index_key [0..<length s])"
| "object_keys h v = Inr []"

text \<open>
  \<^verbatim>\<open>v[key]\<close> for a string key: the own property of that name if there is one, else the
  nearest one of the prototype chain, else \<^verbatim>\<open>undefined\<close>.  Both helpers read a property
  only after \<^verbatim>\<open>typeof\<close> has given \<^verbatim>\<open>"object"\<close> and \<^verbatim>\<open>Object.keys\<close> has succeeded on the
  receiver, so the receiver is an array or an object here, never \<^verbatim>\<open>null\<close>, a primitive
  or a function.
\<close>

fun get_prop :: "heap \<Rightarrow> jsval \<Rightarrow> string \<Rightarrow> jsval" where
  "get_prop h (Ref p) key =
     (case h p of
        Array xs rest \<Rightarrow>
          (case find (\<lambda>i. index_key i = key) [0..<length xs] of
             Some i \<Rightarrow> xs ! i
           | None \<Rightarrow>
               if key = ''length'' then Num (Fin (of_nat (length xs)))
               else (case map_of rest key of Some v \<Rightarrow> v | None \<Rightarrow> Undefined))
      | Object own rest \<Rightarrow>
          (case map_of (own @ rest) key of Some v \<Rightarrow> v | None \<Rightarrow> Undefined)
      | Function \<Rightarrow> Undefined)"
| "get_prop h v key = Undefined"

text \<open>\<^verbatim>\<open>v.length\<close> and \<^verbatim>\<open>v[i]\<close> of an array, for a numeric index.\<close>

fun array_elems :: "heap \<Rightarrow> jsval \<Rightarrow> jsval list" where
  "array_elems h (Ref p) = (case h p of Array xs rest \<Rightarrow> xs | _ \<Rightarrow> [])"
| "array_elems h v = []"

definition array_length :: "heap \<Rightarrow> jsval \<Rightarrow> nat" where
  "array_length h v = length (array_elems h v)"

definition get_index :: "heap \<Rightarrow> jsval \<Rightarrow> nat \<Rightarrow> jsval" where
  "get_index h v i = (if i < array_length h v then array_elems h v ! i else Undefined)"

section \<open>The equality helpers\<close>

text \<open>
  \<^verbatim>\<open>shallowEquals(objA, objB)\<close>.  The result is \<open>Inr\<close> of the returned boolean, or \<open>Inl\<close>
  of the error raised.  The loop over the keys of \<open>objA\<close> returns \<^verbatim>\<open>false\<close> at the first
  key whose two values differ under \<^verbatim>\<open>!==\<close>, and nothing in its body can raise.
\<close>

fun shallowEquals :: "heap \<Rightarrow> jsval \<Rightarrow> jsval \<Rightarrow> error + bool" where
  "shallowEquals h objA objB =
     (if strict_eq objA objB then Inr True
      else if typeof h objA \<noteq> ''object'' \<or> typeof h objB \<noteq> ''object'' then Inr False
      else case object_keys h objA of
             Inl e \<Rightarrow> Inl e
           | Inr keysA \<Rightarrow>
               (case object_keys h objB of
                  Inl e \<Rightarrow> Inl e
                | Inr keysB \<Rightarrow>
                    if length keysA \<noteq> length keysB then Inr False
                    else Inr (list_all
                      (\<lambda>key. strict_eq (get_prop h objA key) (get_prop h objB key)) keysA)))"

declare shallowEquals.simps [simp del]

text \<open>
  A loop whose body calls a comparison that may raise or may not return: it stops with
  \<^verbatim>\<open>false\<close> at the first element compared unequal, passes an error on, and returns
  \<^verbatim>\<open>true\<close> when the elements are used up.  \<open>None\<close> stands for a call that does not return.
\<close>

fun every_m :: "('a \<Rightarrow> (error + bool) option) \<Rightarrow> 'a list \<Rightarrow> (error + bool) option" where
  "every_m f [] = Some (Inr True)"
| "every_m f (x # xs) =
     (case f x of
        None \<Rightarrow> None
      | Some (Inl e) \<Rightarrow> Some (Inl e)
      | Some (Inr False) \<Rightarrow> Some (Inr False)
      | Some (Inr True) \<Rightarrow> every_m f xs)"

lemma every_m_bind:
  "every_m f (x # xs) =
     Option.bind (f x) (\<lambda>r. case r of Inl e \<Rightarrow> Some (Inl e)
                            | Inr b \<Rightarrow> if b then every_m f xs else Some (Inr False))"
  by (auto split: option.splits sum.splits bool.splits)

lemma every_m_mono [partial_function_mono]:
  assumes "\<And>x. mono_option (\<lambda>f. B f x)"
  shows "mono_option (\<lambda>f. every_m (B f) xs)"
proof (induction xs)
  case Nil
  show ?case by (simp add: option.const_mono)
next
  case (Cons x xs)
  have step: "mono_option (\<lambda>f. case r of Inl e \<Rightarrow> Some (Inl e)
                | Inr b \<Rightarrow> if b then every_m (B f) xs else Some (Inr False))" for r
  proof (cases r)
    case (Inl e)
    then show ?thesis by (simp add: option.const_mono)
  next
    case (Inr b)
    then show ?thesis using Cons by (cases b) (simp_all add: option.const_mono)
  qed
  show ?case
    unfolding every_m_bind
    by (rule bind_mono [OF assms step])
qed

text \<open>
  \<^verbatim>\<open>deepEquals(objA, objB)\<close>.  The store may hold cyclic structures, on which the
  recursion need not end, so the function is partial: \<open>None\<close> is a call that never returns.
\<close>

partial_function (option) deepEquals :: "heap \<Rightarrow> jsval \<Rightarrow> jsval \<Rightarrow> (error + bool) option" where
  "deepEquals h objA objB =
     (if strict_eq objA objB then Some (Inr True)
      else if objA = Null \<and> objB = Null then Some (Inr True)
      else if isArray h objA \<and> isArray h objB then
        (if array_length h objA \<noteq> array_length h objB then Some (Inr False)
         else every_m (\<lambda>i. deepEquals h (get_index h objA i) (get_index h objB i))
                [0..<array_length h objA])
      else if typeof h objA = ''object'' \<and> typeof h objB = ''object'' then
        (case object_keys h objA of
           Inl e \<Rightarrow> Some (Inl e)
         | Inr keysA \<Rightarrow>
             (case object_keys h objB of
                Inl e \<Rightarrow> Some (Inl e)
              | Inr keysB \<Rightarrow>
                  if length keysA \<noteq> length keysB then Some (Inr False)
                  else every_m
                    (\<lambda>key. deepEquals h (get_prop h objA key) (get_prop h objB key)) keysA))
      else Some (Inr False))"

declare deepEquals.simps [code]

section \<open>The hooks\<close>

text \<open>
  A factory is a call with side effects: it maps the state of the world to its result and
  the new state.  A comparator is a function like the two above.
\<close>

type_synonym comparator = "heap \<Rightarrow> jsval \<Rightarrow> jsval \<Rightarrow> (error + bool) option"

text \<open>
  \<^verbatim>\<open>useMemo(factory, deps, equals = shallowEquals)\<close>.  The body is
  \<^verbatim>\<open>return factory();\<close>: it keeps no cell between calls and reads neither \<open>deps\<close> nor
  \<open>equals\<close>.
\<close>

definition useMemo ::
  "('w \<Rightarrow> 'a \<times> 'w) \<Rightarrow> jsval list \<Rightarrow> comparator option \<Rightarrow> 'w \<Rightarrow> 'a \<times> 'w" where
  "useMemo factory deps equals_arg w =
     (let equals = (case equals_arg of
                      None \<Rightarrow> (\<lambda>h a b. Some (shallowEquals h a b))
                    | Some eq \<Rightarrow> eq)
      in factory w)"

text \<open>\<^verbatim>\<open>useDeepMemo(factory, deps)\<close> is \<^verbatim>\<open>useMemo(factory, deps, deepEquals)\<close>.\<close>

definition useDeepMemo :: "('w \<Rightarrow> 'a \<times> 'w) \<Rightarrow> jsval list \<Rightarrow> 'w \<Rightarrow> 'a \<times> 'w" where
  "useDeepMemo factory deps w = useMemo factory deps (Some deepEquals) w"

text \<open>
  Function values are references too.  A function store lists the function objects
  allocated so far, each with its behaviour (arguments to an effect on the world); the
  address of a function is its position.  Evaluating an arrow function allocates a new
  function object.

  \<^verbatim>\<open>useCallback(factory, deps)\<close> returns \<^verbatim>\<open>(...args) => factory(...args)\<close>: a new arrow
  function around the function it was handed, which is one of the store.
\<close>

type_synonym ('x, 'w, 'r) fn = "'x \<Rightarrow> 'w \<Rightarrow> 'r \<times> 'w"

type_synonym ('x, 'w, 'r) fn_store = "('x, 'w, 'r) fn list"

definition call_fn :: "('x, 'w, 'r) fn_store \<Rightarrow> addr \<Rightarrow> 'x \<Rightarrow> 'w \<Rightarrow> 'r \<times> 'w" where
  "call_fn fs f args w = (fs ! f) args w"

definition useCallback ::
  "addr \<Rightarrow> jsval list \<Rightarrow> ('x, 'w, 'r) fn_store \<Rightarrow> addr \<times> ('x, 'w, 'r) fn_store" where
  "useCallback factory deps fs = (length fs, fs @ [\<lambda>args. call_fn fs factory args])"

section \<open>Stores and factories of the examples\<close>

text \<open>
  The examples live in a store laid out as follows: the built-in functions are at the
  addresses from 100 on, \<^verbatim>\<open>Object.prototype\<close> is at 99 and \<^verbatim>\<open>Array.prototype\<close> at 98.

  \<open>object_prototype\<close> is what a read finds behind the own enumerable properties of an
  object literal: the members of \<^verbatim>\<open>Object.prototype\<close>.  \<open>array_prototype\<close> is what a read
  finds behind the indices and the length of an array literal: the members of
  \<^verbatim>\<open>Array.prototype\<close>, then those of \<^verbatim>\<open>Object.prototype\<close>.
\<close>

definition object_prototype :: "(string \<times> jsval) list" where
  "object_prototype =
     [(''constructor'', Ref 100), (''__defineGetter__'', Ref 101),
      (''__defineSetter__'', Ref 102), (''hasOwnProperty'', Ref 103),
      (''__lookupGetter__'', Ref 104), (''__lookupSetter__'', Ref 105),
      (''isPrototypeOf'', Ref 106), (''propertyIsEnumerable'', Ref 107),
      (''toString'', Ref 108), (''valueOf'', Ref 109), (''__proto__'', Ref 99),
      (''toLocaleString'', Ref 110)]"

definition array_prototype :: "(string \<times> jsval) list" where
  "array_prototype =
     [(''__proto__'', Ref 98), (''constructor'', Ref 120), (''at'', Ref 121),
      (''concat'', Ref 122), (''copyWithin'', Ref 123), (''fill'', Ref 124),
      (''find'', Ref 125), (''findIndex'', Ref 126), (''findLast'', Ref 127),
      (''findLastIndex'', Ref 128), (''lastIndexOf'', Ref 129), (''pop'', Ref 130),
      (''push'', Ref 131), (''reverse'', Ref 132), (''shift'', Ref 133),
      (''unshift'', Ref 134), (''slice'', Ref 135), (''sort'', Ref 136),
      (''splice'', Ref 137), (''includes'', Ref 138), (''indexOf'', Ref 139),
      (''join'', Ref 140), (''keys'', Ref 141), (''entries'', Ref 142),
      (''values'', Ref 143), (''forEach'', Ref 144), (''filter'', Ref 145),
      (''flat'', Ref 146), (''flatMap'', Ref 147), (''map'', Ref 148),
      (''every'', Ref 149), (''some'', Ref 150), (''reduce'', Ref 151),
      (''reduceRight'', Ref 152), (''toLocaleString'', Ref 153), (''toString'', Ref 154),
      (''toReversed'', Ref 155), (''toSorted'', Ref 156), (''toSpliced'', Ref 157),
      (''with'', Ref 158)]
     @ object_prototype"

text \<open>An object literal with the given properties, and an array literal.\<close>

definition object_literal :: "(string \<times> jsval) list \<Rightarrow> obj" where
  "object_literal own = Object own object_prototype"

definition array_literal :: "jsval list \<Rightarrow> obj" where
  "array_literal xs = Array xs array_prototype"

text \<open>
  The store with the built-ins only: every address below 98 holds an empty object \<^verbatim>\<open>{}\<close>
  of its own.
\<close>

definition no_objects :: heap where
  "no_objects =
     (\<lambda>p. if 100 \<le> p then Function
          else if p = 99 then Object [] ((''__proto__'', Null) # object_prototype)
          else if p = 98 then Array [] ((''__proto__'', Ref 99) # array_prototype)
          else object_literal [])"

text \<open>Two instances of \<^verbatim>\<open>{a: 1}\<close>.\<close>

definition heap_flat :: heap where
  "heap_flat = no_objects
     (0 := object_literal [(''a'', Num (Fin 1))],
      1 := object_literal [(''a'', Num (Fin 1))])"

text \<open>Two instances of \<^verbatim>\<open>{a: NaN}\<close>.\<close>

definition heap_nan_field :: heap where
  "heap_nan_field = no_objects
     (0 := object_literal [(''a'', Num NaN)],
      1 := object_literal [(''a'', Num NaN)])"

text \<open>Two instances of \<^verbatim>\<open>{a: {b: 1}}\<close>, each with an inner object of its own.\<close>

definition heap_nested :: heap where
  "heap_nested = no_objects
     (0 := object_literal [(''a'', Ref 2)],
      1 := object_literal [(''a'', Ref 3)],
      2 := object_literal [(''b'', Num (Fin 1))],
      3 := object_literal [(''b'', Num (Fin 1))])"

text \<open>\<^verbatim>\<open>[1, 2, 3]\<close> and \<^verbatim>\<open>[1, 2]\<close>.\<close>

definition heap_arrays :: heap where
  "heap_arrays = no_objects
     (0 := array_literal [Num (Fin 1), Num (Fin 2), Num (Fin 3)],
      1 := array_literal [Num (Fin 1), Num (Fin 2)])"

text \<open>One array, \<^verbatim>\<open>[NaN]\<close>.\<close>

definition heap_nan_array :: heap where
  "heap_nan_array = no_objects (0 := array_literal [Num NaN])"

text \<open>
  Three instances of \<^verbatim>\<open>{a: [1, {b: x}]}\<close>, each with parts of its own: at addresses 0 and 3
  with \<^verbatim>\<open>x = 2\<close>, at address 6 with \<^verbatim>\<open>x = 3\<close>.
\<close>

definition heap_deep :: heap where
  "heap_deep = no_objects
     (0 := object_literal [(''a'', Ref 1)],
      1 := array_literal [Num (Fin 1), Ref 2],
      2 := object_literal [(''b'', Num (Fin 2))],
      3 := object_literal [(''a'', Ref 4)],
      4 := array_literal [Num (Fin 1), Ref 5],
      5 := object_literal [(''b'', Num (Fin 2))],
      6 := object_literal [(''a'', Ref 7)],
      7 := array_literal [Num (Fin 1), Ref 8],
      8 := object_literal [(''b'', Num (Fin 3))])"

text \<open>\<^verbatim>\<open>{x: undefined}\<close> and \<^verbatim>\<open>{y: 1}\<close>.\<close>

definition heap_missing_key :: heap where
  "heap_missing_key = no_objects
     (0 := object_literal [(''x'', Undefined)],
      1 := object_literal [(''y'', Num (Fin 1))])"

text \<open>\<^verbatim>\<open>{toString: undefined}\<close> and \<^verbatim>\<open>{y: 1}\<close>.\<close>

definition heap_inherited_key :: heap where
  "heap_inherited_key = no_objects
     (0 := object_literal [(''toString'', Undefined)],
      1 := object_literal [(''y'', Num (Fin 1))])"

text \<open>\<^verbatim>\<open>[null]\<close> and \<^verbatim>\<open>[{}]\<close>.\<close>

definition heap_null_in_array :: heap where
  "heap_null_in_array = no_objects
     (0 := array_literal [Null],
      1 := array_literal [Ref 2],
      2 := object_literal [])"

text \<open>\<^verbatim>\<open>[1]\<close> and \<^verbatim>\<open>{"0": 1}\<close>; \<^verbatim>\<open>[]\<close> at address 2 and \<^verbatim>\<open>{}\<close> at address 3.\<close>

definition heap_array_object :: heap where
  "heap_array_object = no_objects
     (0 := array_literal [Num (Fin 1)],
      1 := object_literal [(''0'', Num (Fin 1))],
      2 := array_literal [])"

text \<open>Two arrays, each its own only element.\<close>

definition heap_cyclic :: heap where
  "heap_cyclic = no_objects (0 := array_literal [Ref 0], 1 := array_literal [Ref 1])"

text \<open>
  A factory that increments a counter at each call and returns the new count.  The state
  of the world is the counter, so the final state of a run is the number of times the
  factory was invoked.
\<close>

definition counting_factory :: "nat \<Rightarrow> jsval \<times> nat" where
  "counting_factory calls = (Num (Fin (of_nat (Suc calls))), Suc calls)"

text \<open>A store of one function, which returns its arguments and counts its calls.\<close>

definition one_function :: "(jsval list, nat, jsval list) fn_store" where
  "one_function = [\<lambda>args calls. (args, Suc calls)]"

section \<open>Acyclic stores\<close>

text \<open>
  The addresses an object holds in its elements or own enumerable properties (the parts
  the recursion of \<open>deepEquals\<close> descends into), and the relation "\<open>q\<close> is held by the
  object at \<open>p\<close>".
  A store is acyclic (and every structure in it finite) when this relation is
  well-founded: no chain of references goes down forever.
\<close>

fun refs_of :: "obj \<Rightarrow> addr set" where
  "refs_of (Array xs rest) = {q. Ref q \<in> set xs}"
| "refs_of (Object own rest) = {q. Ref q \<in> snd ` set own}"
| "refs_of Function = {}"

definition points_to :: "heap \<Rightarrow> (addr \<times> addr) set" where
  "points_to h = {(q, p). q \<in> refs_of (h p)}"

section \<open>Properties of \<open>shallowEquals\<close>\<close>

lemmas literal_defs = object_literal_def array_literal_def

lemma strict_eq_refl: "x \<noteq> Num NaN \<Longrightarrow> strict_eq x x"
  by (cases x) auto

lemma strict_eq_imp_eq: "strict_eq a b \<Longrightarrow> a = b"
  by (cases a; cases b) auto

lemma typeof_object_cases:
  "typeof h v = ''object'' \<longleftrightarrow> v = Null \<or> (\<exists>p. v = Ref p \<and> h p \<noteq> Function)"
  by (cases v) (auto split: obj.splits)

lemma shallowEquals_non_object:
  "\<not> strict_eq a b \<Longrightarrow> typeof h a \<noteq> ''object'' \<or> typeof h b \<noteq> ''object'' \<Longrightarrow>
   shallowEquals h a b = Inr False"
  by (auto simp: shallowEquals.simps)

lemma shallowEquals_objects:
  assumes "h a = Object pa ra" and "h b = Object pb rb" and "a \<noteq> b"
  shows "shallowEquals h (Ref a) (Ref b) =
           Inr (length pa = length pb \<and>
                (\<forall>k \<in> fst ` set pa. strict_eq (get_prop h (Ref a) k) (get_prop h (Ref b) k)))"
  using assms by (auto simp: shallowEquals.simps list_all_iff)

text \<open>
  Claim C4, as stated: \<open>shallowEquals(x, x)\<close> is true for every value \<open>x\<close>.  It fails at
  \<open>x = NaN\<close>: \<^verbatim>\<open>NaN === NaN\<close> is false and \<^verbatim>\<open>typeof NaN\<close> is \<^verbatim>\<open>"number"\<close>, so the second
  test returns \<^verbatim>\<open>false\<close>.
\<close>

theorem shallowEquals_NaN_counterexample:
  "shallowEquals no_objects (Num NaN) (Num NaN) = Inr False"
  by (simp add: shallowEquals.simps)

text \<open>
  Claim C4, amended: for every value \<open>x\<close> other than \<open>NaN\<close>, \<open>shallowEquals(x, x)\<close> returns
  true, in particular for \<^verbatim>\<open>null\<close> and \<^verbatim>\<open>undefined\<close>.
\<close>

theorem shallowEquals_refl:
  "x \<noteq> Num NaN \<Longrightarrow> shallowEquals h x x = Inr True"
  by (simp add: shallowEquals.simps strict_eq_refl)

theorem shallowEquals_refl_witness:
  "shallowEquals no_objects Null Null = Inr True \<and>
   shallowEquals no_objects Undefined Undefined = Inr True \<and>
   shallowEquals no_objects (Ref 0) (Ref 0) = Inr True"
  using shallowEquals_refl [of Null no_objects] shallowEquals_refl [of Undefined no_objects]
    shallowEquals_refl [of "Ref 0" no_objects]
  by simp

text \<open>
  Claim C7: when exactly one of \<open>a\<close>, \<open>b\<close> is a non-object (\<^verbatim>\<open>null\<close> included),
  \<open>shallowEquals(a, b)\<close> returns false and raises nothing.  The code guards with
  \<^verbatim>\<open>typeof\<close>, and \<^verbatim>\<open>typeof null\<close> is \<^verbatim>\<open>"object"\<close>: on \<^verbatim>\<open>null\<close> against the empty object
  \<^verbatim>\<open>{}\<close> the guard lets both through and \<^verbatim>\<open>Object.keys(null)\<close> raises a \<^verbatim>\<open>TypeError\<close>.
  (Lemma \<open>shallowEquals_non_object\<close> is what the guard does give.)
\<close>

theorem shallowEquals_null_object_raises:
  "shallowEquals no_objects Null (Ref 0) = Inl TypeError"
  by (simp add: shallowEquals.simps no_objects_def literal_defs)

text \<open>
  Claim C8, as stated, has two distinct flat objects with identical primitive values for
  identical keys compare true.  It fails when the value is \<open>NaN\<close>: the loop tests each
  pair of values with \<^verbatim>\<open>!==\<close>, and \<^verbatim>\<open>NaN !== NaN\<close>, so
  \<open>shallowEquals({a: NaN}, {a: NaN})\<close> is false.
\<close>

theorem shallowEquals_NaN_field_counterexample:
  "object_keys heap_nan_field (Ref 0) = Inr [''a''] \<and>
   object_keys heap_nan_field (Ref 1) = Inr [''a''] \<and>
   get_prop heap_nan_field (Ref 0) ''a'' = Num NaN \<and>
   get_prop heap_nan_field (Ref 1) ''a'' = Num NaN \<and>
   shallowEquals heap_nan_field (Ref 0) (Ref 1) = Inr False"
  by (simp add: shallowEquals.simps heap_nan_field_def literal_defs)

text \<open>
  Claim C8, amended: \<open>shallowEquals\<close> compares exactly one level deep.  On two distinct
  non-array objects \<open>a\<close>, \<open>b\<close> it returns a boolean, which is true if and only if the key
  counts are equal and \<^verbatim>\<open>a[k] === b[k]\<close> for every key \<open>k\<close> of \<open>a\<close>.  So two distinct objects
  with the same keys and, under each key, the same value other than \<open>NaN\<close> compare true; two
  distinct objects that hold, under some key of \<open>a\<close>, two different references compare
  false, whatever those references point to.  \<open>shallowEquals({a:1}, {a:1})\<close> is true and
  \<open>shallowEquals({a:{b:1}}, {a:{b:1}})\<close> is false.
\<close>

theorem shallowEquals_one_level:
  assumes "h a = Object pa ra" and "h b = Object pb rb" and "a \<noteq> b"
  shows "shallowEquals h (Ref a) (Ref b) =
           Inr (length pa = length pb \<and>
                (\<forall>k \<in> fst ` set pa. strict_eq (get_prop h (Ref a) k) (get_prop h (Ref b) k)))
       \<and> (distinct (map fst pa) \<and> distinct (map fst pb) \<and> fst ` set pa = fst ` set pb \<and>
          (\<forall>k \<in> fst ` set pa. get_prop h (Ref a) k = get_prop h (Ref b) k \<and>
                                get_prop h (Ref a) k \<noteq> Num NaN)
          \<longrightarrow> shallowEquals h (Ref a) (Ref b) = Inr True)
       \<and> ((\<exists>k \<in> fst ` set pa. \<exists>p q. get_prop h (Ref a) k = Ref p \<and>
               get_prop h (Ref b) k = Ref q \<and> p \<noteq> q)
          \<longrightarrow> shallowEquals h (Ref a) (Ref b) = Inr False)
       \<and> shallowEquals heap_flat (Ref 0) (Ref 1) = Inr True
       \<and> shallowEquals heap_nested (Ref 0) (Ref 1) = Inr False"
proof (intro conjI impI)
  show "shallowEquals h (Ref a) (Ref b) =
           Inr (length pa = length pb \<and>
                (\<forall>k \<in> fst ` set pa. strict_eq (get_prop h (Ref a) k) (get_prop h (Ref b) k)))"
    by (rule shallowEquals_objects [OF assms])
next
  assume same: "distinct (map fst pa) \<and> distinct (map fst pb) \<and> fst ` set pa = fst ` set pb \<and>
          (\<forall>k \<in> fst ` set pa. get_prop h (Ref a) k = get_prop h (Ref b) k \<and>
                                get_prop h (Ref a) k \<noteq> Num NaN)"
  then have "card (set (map fst pa)) = card (set (map fst pb))" by simp
  with same have "length pa = length pb"
    by (metis distinct_card length_map)
  moreover from same
  have "\<forall>k \<in> fst ` set pa. strict_eq (get_prop h (Ref a) k) (get_prop h (Ref b) k)"
    using strict_eq_refl by metis
  ultimately show "shallowEquals h (Ref a) (Ref b) = Inr True"
    unfolding shallowEquals_objects [OF assms] by blast
next
  assume "\<exists>k \<in> fst ` set pa. \<exists>p q. get_prop h (Ref a) k = Ref p \<and>
               get_prop h (Ref b) k = Ref q \<and> p \<noteq> q"
  then obtain k p q where k: "k \<in> fst ` set pa" and "get_prop h (Ref a) k = Ref p"
      and "get_prop h (Ref b) k = Ref q" and "p \<noteq> q"
    by blast
  then have "\<not> strict_eq (get_prop h (Ref a) k) (get_prop h (Ref b) k)" by simp
  with k show "shallowEquals h (Ref a) (Ref b) = Inr False"
    unfolding shallowEquals_objects [OF assms] by blast
next
  show "shallowEquals heap_flat (Ref 0) (Ref 1) = Inr True"
    by (simp add: shallowEquals.simps heap_flat_def literal_defs)
next
  show "shallowEquals heap_nested (Ref 0) (Ref 1) = Inr False"
    by (simp add: shallowEquals.simps heap_nested_def literal_defs)
qed

theorem shallowEquals_one_level_witness:
  "shallowEquals heap_flat (Ref 0) (Ref 1) = Inr True \<and>
   shallowEquals heap_nested (Ref 0) (Ref 1) = Inr False \<and>
   shallowEquals heap_missing_key (Ref 0) (Ref 1) = Inr True \<and>
   shallowEquals heap_deep (Ref 2) (Ref 8) = Inr False \<and>
   shallowEquals heap_deep (Ref 2) (Ref 9) = Inr False"
proof -
  have f0: "heap_flat 0 = Object [(''a'', Num (Fin 1))] object_prototype"
    and f1: "heap_flat 1 = Object [(''a'', Num (Fin 1))] object_prototype"
    by (simp_all add: heap_flat_def literal_defs)
  have n0: "heap_nested 0 = Object [(''a'', Ref 2)] object_prototype"
    and n1: "heap_nested 1 = Object [(''a'', Ref 3)] object_prototype"
    by (simp_all add: heap_nested_def literal_defs)
  have m0: "heap_missing_key 0 = Object [(''x'', Undefined)] object_prototype"
    and m1: "heap_missing_key 1 = Object [(''y'', Num (Fin 1))] object_prototype"
    by (simp_all add: heap_missing_key_def object_literal_def)
  have d2: "heap_deep 2 = Object [(''b'', Num (Fin 2))] object_prototype"
    and d8: "heap_deep 8 = Object [(''b'', Num (Fin 3))] object_prototype"
    and d9: "heap_deep 9 = Object [] object_prototype"
    by (simp_all add: heap_deep_def no_objects_def literal_defs)
  have ne: "(0::nat) \<noteq> 1" "(2::nat) \<noteq> 8" "(2::nat) \<noteq> 9" by simp_all
  have "shallowEquals heap_flat (Ref 0) (Ref 1) = Inr True"
    using shallowEquals_one_level [OF f0 f1 ne(1), THEN conjunct1]
    by (simp add: f0 f1 del: One_nat_def)
  moreover have "shallowEquals heap_nested (Ref 0) (Ref 1) = Inr False"
    using shallowEquals_one_level [OF n0 n1 ne(1), THEN conjunct1]
    by (simp add: n0 n1 del: One_nat_def)
  moreover have "shallowEquals heap_missing_key (Ref 0) (Ref 1) = Inr True"
    using shallowEquals_one_level [OF m0 m1 ne(1), THEN conjunct1]
    by (simp add: m0 m1 object_prototype_def del: One_nat_def)
  moreover have "shallowEquals heap_deep (Ref 2) (Ref 8) = Inr False"
    using shallowEquals_one_level [OF d2 d8 ne(2), THEN conjunct1] by (simp add: d2 d8)
  moreover have "shallowEquals heap_deep (Ref 2) (Ref 9) = Inr False"
    using shallowEquals_one_level [OF d2 d9 ne(3), THEN conjunct1] by simp
  ultimately show ?thesis by simp
qed


section \<open>Properties of \<open>deepEquals\<close>\<close>

subsection \<open>The loop\<close>

lemma every_m_True_iff:
  "every_m f xs = Some (Inr True) \<longleftrightarrow> (\<forall>x \<in> set xs. f x = Some (Inr True))"
  by (induction xs) (auto split: option.splits sum.splits bool.splits)

lemma every_m_total:
  "(\<And>x. x \<in> set xs \<Longrightarrow> f x \<noteq> None) \<Longrightarrow> every_m f xs \<noteq> None"
  by (induction xs) (auto split: option.splits sum.splits bool.splits)

lemma every_m_cong [fundef_cong]:
  "xs = ys \<Longrightarrow> (\<And>x. x \<in> set ys \<Longrightarrow> f x = g x) \<Longrightarrow> every_m f xs = every_m g ys"
  by (induction ys arbitrary: xs) (auto split: option.splits sum.splits bool.splits)

subsection \<open>One unfolding of the function, branch by branch\<close>

lemma isArray_typeof: "isArray h v \<Longrightarrow> typeof h v = ''object''"
  by (cases v) (auto split: obj.splits)

lemma deepEquals_non_object:
  assumes "\<not> strict_eq a b" and "typeof h a \<noteq> ''object'' \<or> typeof h b \<noteq> ''object''"
  shows "deepEquals h a b = Some (Inr False)"
proof -
  from assms(2) have "\<not> (isArray h a \<and> isArray h b)"
    using isArray_typeof by blast
  moreover from assms(2) have "\<not> (a = Null \<and> b = Null)" by auto
  ultimately show ?thesis
    using assms by (subst deepEquals.simps) auto
qed

lemma deepEquals_arrays:
  assumes "h a = Array xs ra" and "h b = Array ys rb" and "a \<noteq> b"
  shows "deepEquals h (Ref a) (Ref b) =
           (if length xs \<noteq> length ys then Some (Inr False)
            else every_m (\<lambda>i. deepEquals h (xs ! i) (ys ! i)) [0..<length xs])"
proof -
  have "every_m (\<lambda>i. deepEquals h (get_index h (Ref a) i) (get_index h (Ref b) i))
          [0..<length xs]
        = every_m (\<lambda>i. deepEquals h (xs ! i) (ys ! i)) [0..<length xs]"
    if "length xs = length ys"
    using that assms by (intro every_m_cong) (simp_all add: get_index_def array_length_def)
  then show ?thesis
    using assms by (subst deepEquals.simps) (simp add: array_length_def)
qed


subsection \<open>Arrays\<close>

text \<open>
  Claim C9, as stated, speaks of every pair of arrays, the pair of an array with itself
  included.  There the identity test answers first: for the one array \<^verbatim>\<open>a = [NaN]\<close>,
  \<open>deepEquals(a, a)\<close> is true, while its only index-aligned pair is not deep-equal,
  \<open>deepEquals(NaN, NaN)\<close> being false.
\<close>

theorem deepEquals_same_array_NaN_counterexample:
  "deepEquals heap_nan_array (Ref 0) (Ref 0) = Some (Inr True) \<and>
   array_length heap_nan_array (Ref 0) = 1 \<and>
   deepEquals heap_nan_array (get_index heap_nan_array (Ref 0) 0)
     (get_index heap_nan_array (Ref 0) 0) = Some (Inr False)"
  by (simp add: deepEquals.simps literal_defs heap_nan_array_def array_length_def get_index_def)

text \<open>
  Claim C9, amended: for every pair of arrays \<open>a\<close>, \<open>b\<close> that are not the same array,
  \<open>deepEquals(a, b)\<close> returns false if their lengths differ, and for equal lengths returns
  true if and only if \<open>deepEquals\<close> returns true on every index-aligned pair of elements.
  \<open>deepEquals([1,2,3], [1,2])\<close> is false.
\<close>

theorem deepEquals_arrays_pointwise:
  assumes "h a = Array xs ra" and "h b = Array ys rb" and "a \<noteq> b"
  shows "(length xs \<noteq> length ys \<longrightarrow> deepEquals h (Ref a) (Ref b) = Some (Inr False))
       \<and> (length xs = length ys \<longrightarrow>
            (deepEquals h (Ref a) (Ref b) = Some (Inr True) \<longleftrightarrow>
             (\<forall>i < length xs. deepEquals h (xs ! i) (ys ! i) = Some (Inr True))))
       \<and> deepEquals heap_arrays (Ref 0) (Ref 1) = Some (Inr False)"
proof (intro conjI impI)
  show "deepEquals heap_arrays (Ref 0) (Ref 1) = Some (Inr False)"
    by (simp add: deepEquals.simps literal_defs heap_arrays_def array_length_def)
qed (auto simp add: deepEquals_arrays [OF assms] every_m_True_iff)

theorem deepEquals_arrays_pointwise_witness:
  "deepEquals heap_arrays (Ref 0) (Ref 1) = Some (Inr False) \<and>
   deepEquals heap_deep (Ref 1) (Ref 4) = Some (Inr True) \<and>
   deepEquals heap_deep (Ref 1) (Ref 7) \<noteq> Some (Inr True)"
proof -
  have a0: "heap_arrays 0 = Array [Num (Fin 1), Num (Fin 2), Num (Fin 3)] array_prototype"
    and a1: "heap_arrays 1 = Array [Num (Fin 1), Num (Fin 2)] array_prototype"
    by (simp_all add: heap_arrays_def literal_defs)
  have d1: "heap_deep 1 = Array [Num (Fin 1), Ref 2] array_prototype"
    and d4: "heap_deep 4 = Array [Num (Fin 1), Ref 5] array_prototype"
    and d7: "heap_deep 7 = Array [Num (Fin 1), Ref 8] array_prototype"
    by (simp_all add: heap_deep_def literal_defs)
  have b25: "deepEquals heap_deep (Ref 2) (Ref 5) = Some (Inr True)"
    and b28: "deepEquals heap_deep (Ref 2) (Ref 8) = Some (Inr False)"
    and one: "deepEquals heap_deep (Num (Fin 1)) (Num (Fin 1)) = Some (Inr True)"
    by (simp_all add: deepEquals.simps literal_defs heap_deep_def)
  have "deepEquals heap_arrays (Ref 0) (Ref 1) = Some (Inr False)"
    using deepEquals_arrays_pointwise [OF a0 a1] by simp
  moreover have "deepEquals heap_deep (Ref 1) (Ref 4) = Some (Inr True)"
    using deepEquals_arrays_pointwise [OF d1 d4] b25 one by (simp add: less_Suc_eq)
  moreover have "deepEquals heap_deep (Ref 1) (Ref 7) \<noteq> Some (Inr True)"
    using deepEquals_arrays_pointwise [OF d1 d7] b28 by (auto simp add: less_Suc_eq)
  ultimately show ?thesis by simp
qed

subsection \<open>Plain objects\<close>




text \<open>
  The read goes through the prototype chain: against \<^verbatim>\<open>{y: 1}\<close>, the key \<^verbatim>\<open>toString\<close> of
  \<^verbatim>\<open>{toString: undefined}\<close> reads as the inherited function, and the two objects compare
  false.
\<close>

lemma deepEquals_inherited_key:
  "get_prop heap_inherited_key (Ref 1) ''toString'' = Ref 108 \<and>
   typeof heap_inherited_key (Ref 108) = ''function'' \<and>
   deepEquals heap_inherited_key (Ref 0) (Ref 1) = Some (Inr False) \<and>
   shallowEquals heap_inherited_key (Ref 0) (Ref 1) = Inr False"
  by (simp add: deepEquals.simps shallowEquals.simps literal_defs heap_inherited_key_def
      object_prototype_def no_objects_def)

subsection \<open>Values of different kinds\<close>

text \<open>
  Claim C2: two values that are not identical, not both arrays and not both plain objects
  compare false under \<open>deepEquals\<close>; the claim names \<^verbatim>\<open>null\<close> against a non-null object.
  The code takes its object branch whenever \<^verbatim>\<open>typeof\<close> gives \<^verbatim>\<open>"object"\<close> on both sides,
  which it does for \<^verbatim>\<open>null\<close>: \<open>deepEquals(null, {})\<close> reaches \<^verbatim>\<open>Object.keys(null)\<close> and
  raises a \<^verbatim>\<open>TypeError\<close>.
\<close>

theorem deepEquals_null_object_raises:
  "deepEquals no_objects Null (Ref 0) = Some (Inl TypeError)"
  by (simp add: deepEquals.simps literal_defs no_objects_def)

text \<open>
  The same branch takes an array against a plain object and compares them key by key:
  \<open>deepEquals([1], {"0": 1})\<close> and \<open>deepEquals([], {})\<close> are true.  What the last line of
  the function does give is lemma \<open>deepEquals_non_object\<close>: false as soon as one side is
  not of type \<^verbatim>\<open>"object"\<close> and the two are not identical.
\<close>

lemma deepEquals_array_equals_object:
  "deepEquals heap_array_object (Ref 0) (Ref 1) = Some (Inr True) \<and>
   deepEquals heap_array_object (Ref 2) (Ref 3) = Some (Inr True)"
  by (simp add: deepEquals.simps literal_defs heap_array_object_def no_objects_def index_key.simps
      digit_char_def)

subsection \<open>Termination\<close>

text \<open>
  A reference read under one of the receiver's own keys is held by the receiver: own
  properties come before the prototype chain.
\<close>

lemma get_prop_ref:
  assumes "object_keys h (Ref p) = Inr ks" and "k \<in> set ks"
    and "get_prop h (Ref p) k = Ref q"
  shows "q \<in> refs_of (h p)"
proof (cases "h p")
  case (Array xs rest)
  with assms(1,2) obtain i where "i < length xs" and "index_key i = k" by auto
  then have "find (\<lambda>i. index_key i = k) [0..<length xs] \<noteq> None"
    by (auto simp: find_None_iff)
  then obtain j where j: "find (\<lambda>i. index_key i = k) [0..<length xs] = Some j" by blast
  then have "j < length xs" by (auto simp: find_Some_iff)
  moreover from assms(3) Array j have "xs ! j = Ref q" by simp
  ultimately have "Ref q \<in> set xs" by (metis nth_mem)
  with Array show ?thesis by simp
next
  case (Object own rest)
  with assms(1,2) have "k \<in> fst ` set own" by auto
  then obtain v where v: "map_of own k = Some v"
    by (metis domD dom_map_of_conv_image_fst)
  with assms(3) Object have "v = Ref q" by (simp add: map_add_Some_iff)
  with v have "(k, Ref q) \<in> set own" by (auto dest: map_of_SomeD)
  then have "Ref q \<in> snd ` set own" by force
  with Object show ?thesis by simp
next
  case Function
  with assms(3) show ?thesis by simp
qed

lemma get_index_ref: "get_index h (Ref p) i = Ref q \<Longrightarrow> q \<in> refs_of (h p)"
proof (cases "h p")
  case (Array xs rest)
  assume "get_index h (Ref p) i = Ref q"
  with Array have "i < length xs" and "xs ! i = Ref q"
    by (auto simp: get_index_def array_length_def split: if_splits)
  then have "Ref q \<in> set xs" by (metis nth_mem)
  with Array show ?thesis by simp
qed (auto simp: get_index_def array_length_def split: if_splits)

lemma deepEquals_primitive_returns:
  assumes "\<And>p. a \<noteq> Ref p"
  shows "deepEquals h a b \<noteq> None"
proof -
  have "\<not> isArray h a" using assms by (cases a) auto
  moreover have "object_keys h a = Inl TypeError" if "typeof h a = ''object''"
    using that assms by (cases a) auto
  ultimately show ?thesis
    by (subst deepEquals.simps) auto
qed

text \<open>
  Every recursive call takes as its first argument an element or a property value of the
  first argument, so well-founded induction on the address of the first argument goes
  through.
\<close>

lemma deepEquals_ref_returns:
  assumes "wf (points_to h)"
  shows "deepEquals h (Ref p) b \<noteq> None"
  using assms
proof (induction p arbitrary: b rule: wf_induct_rule)
  case (less p)
  have sub: "deepEquals h v c \<noteq> None" if "\<And>q. v = Ref q \<Longrightarrow> q \<in> refs_of (h p)" for v c
  proof (cases "\<exists>q. v = Ref q")
    case True
    then obtain q where v: "v = Ref q" by blast
    with that have "(q, p) \<in> points_to h" by (simp add: points_to_def)
    with v show ?thesis using less.IH by blast
  next
    case False
    then show ?thesis by (intro deepEquals_primitive_returns) blast
  qed
  have arr: "\<exists>y. every_m (\<lambda>i. deepEquals h (get_index h (Ref p) i) (get_index h b i)) is = Some y"
    for "is"
    using every_m_total [of "is" "\<lambda>i. deepEquals h (get_index h (Ref p) i) (get_index h b i)"]
      sub get_index_ref by blast
  have obj: "\<exists>y. every_m (\<lambda>k. deepEquals h (get_prop h (Ref p) k) (get_prop h b k)) ks = Some y"
    if "object_keys h (Ref p) = Inr ks" for ks
    using every_m_total [of ks "\<lambda>k. deepEquals h (get_prop h (Ref p) k) (get_prop h b k)"]
      sub get_prop_ref [OF that] by blast
  show ?case
    by (subst deepEquals.simps)
      (simp add: arr obj split: sum.splits
         del: typeof.simps isArray.simps get_prop.simps object_keys.simps strict_eq.simps)
qed

text \<open>
  On an acyclic store \<open>deepEquals\<close> terminates on every pair of values: the call completes,
  with a boolean or with an error.
\<close>

lemma deepEquals_terminates:
  assumes "wf (points_to h)"
  shows "\<exists>r. deepEquals h a b = Some r"
proof (cases "\<exists>p. a = Ref p")
  case True
  then show ?thesis using deepEquals_ref_returns [OF assms] by auto
next
  case False
  then have "deepEquals h a b \<noteq> None" by (intro deepEquals_primitive_returns) blast
  then show ?thesis by auto
qed

lemma refs_of_no_objects: "refs_of (no_objects p) = {}"
  by (simp add: no_objects_def literal_defs)

lemma heap_deep_acyclic: "wf (points_to heap_deep)"
proof (rule wf_subset [OF wf_measure])
  show "points_to heap_deep \<subseteq>
          measure (\<lambda>p. if p \<in> {0, 3, 6} then 2 else if p \<in> {1, 4, 7} then 1 else 0)"
    by (auto simp: points_to_def heap_deep_def refs_of_no_objects literal_defs
        split: if_splits)
qed

lemma deepEquals_terminates_on_heap_deep: "\<exists>r. deepEquals heap_deep (Ref 0) (Ref 6) = Some r"
  using deepEquals_terminates [OF heap_deep_acyclic] .

text \<open>
  The hypothesis is needed: on two arrays that each hold themselves the call never
  returns.
\<close>

lemma deepEquals_cyclic_diverges: "deepEquals heap_cyclic (Ref 0) (Ref 1) = None"
proof -
  have "\<not> (h = heap_cyclic \<and> a = Ref 0 \<and> b = Ref 1)" if "deepEquals h a b = Some r" for h a b r
  proof (rule deepEquals.raw_induct
      [where P = "\<lambda>h a b r. \<not> (h = heap_cyclic \<and> a = Ref 0 \<and> b = Ref 1)", OF _ that])
    fix deepEquals' :: "heap \<Rightarrow> jsval \<Rightarrow> jsval \<Rightarrow> (error + bool) option"
    fix h a b r
    assume IH: "\<And>h a b r. deepEquals' h a b = Some r \<Longrightarrow>
                  \<not> (h = heap_cyclic \<and> a = Ref 0 \<and> b = Ref 1)"
    assume body: "(if strict_eq a b then Some (Inr True)
      else if a = Null \<and> b = Null then Some (Inr True)
      else if isArray h a \<and> isArray h b then
        (if array_length h a \<noteq> array_length h b then Some (Inr False)
         else every_m (\<lambda>i. deepEquals' h (get_index h a i) (get_index h b i))
                [0..<array_length h a])
      else if typeof h a = ''object'' \<and> typeof h b = ''object'' then
        (case object_keys h a of
           Inl e \<Rightarrow> Some (Inl e)
         | Inr keysA \<Rightarrow>
             (case object_keys h b of
                Inl e \<Rightarrow> Some (Inl e)
              | Inr keysB \<Rightarrow>
                  if length keysA \<noteq> length keysB then Some (Inr False)
                  else every_m
                    (\<lambda>key. deepEquals' h (get_prop h a key) (get_prop h b key)) keysA))
      else Some (Inr False)) = Some r"
    show "\<not> (h = heap_cyclic \<and> a = Ref 0 \<and> b = Ref 1)"
    proof
      assume c: "h = heap_cyclic \<and> a = Ref 0 \<and> b = Ref 1"
      with body have "\<exists>r'. deepEquals' heap_cyclic (Ref 0) (Ref 1) = Some r'"
        by (simp add: heap_cyclic_def array_length_def get_index_def literal_defs
            split: option.splits sum.splits bool.splits)
      with IH show False by blast
    qed
  qed
  then show ?thesis by (cases "deepEquals heap_cyclic (Ref 0) (Ref 1)") auto
qed

text \<open>
  Claim C10: on acyclic inputs \<open>deepEquals\<close> terminates and returns a boolean.  It does
  terminate (lemma \<open>deepEquals_terminates\<close>), but not always with a boolean: comparing
  \<^verbatim>\<open>[null]\<close> with \<^verbatim>\<open>[{}]\<close> recurses into the pair \<^verbatim>\<open>null\<close>, \<^verbatim>\<open>{}\<close>, where
  \<^verbatim>\<open>Object.keys(null)\<close> raises a \<^verbatim>\<open>TypeError\<close>.
\<close>

theorem deepEquals_null_element_raises:
  "deepEquals heap_null_in_array (Ref 0) (Ref 1) = Some (Inl TypeError)"
  by (simp add: deepEquals.simps literal_defs heap_null_in_array_def array_length_def get_index_def)

section \<open>Properties of the hooks\<close>

lemma useMemo_runs_factory: "useMemo factory deps equals_arg w = factory w"
  by (simp add: useMemo_def)

lemma useDeepMemo_runs_factory: "useDeepMemo factory deps w = factory w"
  by (simp add: useDeepMemo_def useMemo_def)

text \<open>
  Claim C1: a second \<open>useMemo\<close> call with a dependency list that matches the stored one
  returns the stored value without invoking the factory, so \<open>memoize(factory, [1,2])\<close>
  twice invokes the factory once.  The code invokes the factory at every call
  (lemma \<open>useMemo_runs_factory\<close>): after the two calls the counter stands at 2.
\<close>

theorem useMemo_same_deps_runs_factory_twice:
  "snd (useMemo counting_factory [Num (Fin 1), Num (Fin 2)] None
         (snd (useMemo counting_factory [Num (Fin 1), Num (Fin 2)] None 0))) = 2"
  by (simp add: useMemo_def counting_factory_def)

text \<open>
  Claim C5: \<open>useDeepMemo\<close> called twice with two distinct instances of \<^verbatim>\<open>{a: 1}\<close> in its
  dependency lists does not invoke the factory again.  The two instances are distinct
  references and deep-equal, and the code invokes the factory at both calls.
\<close>

theorem useDeepMemo_deep_equal_deps_runs_factory_twice:
  "Ref 0 \<noteq> Ref 1 \<and>
   deepEquals heap_flat (Ref 0) (Ref 1) = Some (Inr True) \<and>
   snd (useDeepMemo counting_factory [Ref 1]
         (snd (useDeepMemo counting_factory [Ref 0] 0))) = 2"
  by (simp add: useDeepMemo_def useMemo_def counting_factory_def deepEquals.simps
      heap_flat_def literal_defs)

lemma useCallback_fresh: "fst (useCallback factory deps fs) = length fs"
  by (simp add: useCallback_def)

text \<open>
  The function returned forwards its arguments to the function handed in, and hands back
  that function's result and effect.
\<close>

lemma useCallback_forwards:
  assumes "factory < length fs" and "useCallback factory deps fs = (g, fs')"
  shows "call_fn fs' g args w = call_fn fs' factory args w"
  using assms by (auto simp: useCallback_def call_fn_def nth_append)

text \<open>
  Claim C6: a second \<open>useCallback\<close> call with a matching dependency list returns the
  identical function reference as the first.  The code allocates a new arrow function at
  every call: called twice with the function at address 0 and the list \<^verbatim>\<open>[1]\<close>, it returns
  two different references.  (The new function does forward to the function handed in:
  lemma \<open>useCallback_forwards\<close>.)
\<close>

theorem useCallback_same_deps_new_reference:
  "fst (useCallback 0 [Num (Fin 1)] (snd (useCallback 0 [Num (Fin 1)] one_function)))
     \<noteq> fst (useCallback 0 [Num (Fin 1)] one_function)"
  by (simp add: useCallback_def one_function_def)

end
